theory Spec2Isabelle
  imports Complex_Main
begin

section \<open>JavaScript values and the built-ins the session manager calls\<close>

text \<open>
  The session manager (\<^verbatim>\<open>src/session-manager-v1.1.ts\<close>, class
  \<^verbatim>\<open>ClaudeSessionManager\<close>) works on JavaScript strings and on the values
  \<^verbatim>\<open>JSON.parse\<close> returns. A string is modelled as a \<^typ>\<open>string\<close>, one
  \<^typ>\<open>char\<close> per code unit, so the model covers the code units up to 0xFF. A parsed
  value is a \<open>json\<close>; \<open>undefined\<close> (a missing property) is \<open>None\<close> of
  \<open>json option\<close>. A number is the value of the double (\<open>-0\<close> is \<open>0\<close>;
  \<^verbatim>\<open>JSON.parse\<close> never returns \<open>NaN\<close>). An object is the list of its own
  properties, each key once, in insertion order.
\<close>

datatype jsnum = Finite rat | PosInfinity | NegInfinity

datatype json =
    JNull
  | JBool bool
  | JNum jsnum
  | JStr string
  | JArr "json list"
  | JObj "(string \<times> json) list"

datatype js_error = SyntaxError | TypeError | IOError | SessionNotFound string

text \<open>
  The built-ins of the engine that are not code of the repository are parameters of the
  model: \<^verbatim>\<open>JSON.parse\<close> (\<open>None\<close> when it throws a SyntaxError),
  \<^verbatim>\<open>JSON.stringify\<close> and the conversion of a number to a string.
\<close>

record builtins =
  JSON_parse :: "string \<Rightarrow> json option"
  JSON_stringify :: "json \<Rightarrow> string"
  Number_toString :: "jsnum \<Rightarrow> string"

definition bind_err :: "js_error + 'a \<Rightarrow> ('a \<Rightarrow> js_error + 'b) \<Rightarrow> js_error + 'b" where
  "bind_err r f = (case r of Inl e \<Rightarrow> Inl e | Inr v \<Rightarrow> f v)"

text \<open>
  \<^verbatim>\<open>v.k\<close> for the property names the code reads (\<open>type\<close>, \<open>message\<close>,
  \<open>role\<close>, \<open>content\<close>, \<open>text\<close>): a TypeError on \<open>null\<close>, the own property of
  an object, and \<open>undefined\<close> on a boolean, number, string or array, whose prototypes
  have no property of these names.
\<close>

fun js_get :: "json \<Rightarrow> string \<Rightarrow> js_error + json option" where
  "js_get JNull k = Inl TypeError"
| "js_get (JObj fs) k = Inr (map_of fs k)"
| "js_get v k = Inr None"

text \<open>\<^verbatim>\<open>v?.k\<close>: \<open>undefined\<close> when \<open>v\<close> is \<open>undefined\<close> or \<open>null\<close>.\<close>

fun js_chain :: "json option \<Rightarrow> string \<Rightarrow> json option" where
  "js_chain None k = None"
| "js_chain (Some JNull) k = None"
| "js_chain (Some (JObj fs)) k = map_of fs k"
| "js_chain (Some v) k = None"

fun ToBoolean :: "json option \<Rightarrow> bool" where
  "ToBoolean None = False"
| "ToBoolean (Some JNull) = False"
| "ToBoolean (Some (JBool b)) = b"
| "ToBoolean (Some (JNum n)) = (n \<noteq> Finite 0)"
| "ToBoolean (Some (JStr s)) = (s \<noteq> [])"
| "ToBoolean (Some (JArr xs)) = True"
| "ToBoolean (Some (JObj fs)) = True"

text \<open>\<^verbatim>\<open>a || b\<close> on values whose evaluation cannot throw.\<close>

definition js_or :: "json option \<Rightarrow> json option \<Rightarrow> json option" where
  "js_or a b = (if ToBoolean a then a else b)"

text \<open>\<^verbatim>\<open>ss.join(sep)\<close> on an array of strings.\<close>

fun join_strings :: "string \<Rightarrow> string list \<Rightarrow> string" where
  "join_strings sep [] = []"
| "join_strings sep [s] = s"
| "join_strings sep (s # t # ts) = s @ sep @ join_strings sep (t # ts)"

text \<open>
  \<open>ToString\<close> of a parsed value, as \<^verbatim>\<open>Array.prototype.join\<close> applies it to the
  elements: an array joins its elements with a comma (\<open>null\<close> elements give the empty
  string); an object gives \<^verbatim>\<open>[object Object]\<close>, unless it has an own property
  \<open>toString\<close>, which is not callable and makes the conversion throw a TypeError.
\<close>

fun js_ToString :: "(jsnum \<Rightarrow> string) \<Rightarrow> json \<Rightarrow> js_error + string"
  and ToString_elems :: "(jsnum \<Rightarrow> string) \<Rightarrow> json list \<Rightarrow> js_error + string list" where
  "js_ToString N JNull = Inr ''null''"
| "js_ToString N (JBool b) = Inr (if b then ''true'' else ''false'')"
| "js_ToString N (JNum n) = Inr (N n)"
| "js_ToString N (JStr s) = Inr s"
| "js_ToString N (JArr xs) =
     bind_err (ToString_elems N xs) (\<lambda>ss. Inr (join_strings '','' ss))"
| "js_ToString N (JObj fs) =
     (if map_of fs ''toString'' \<noteq> None then Inl TypeError else Inr ''[object Object]'')"
| "ToString_elems N [] = Inr []"
| "ToString_elems N (x # xs) =
     bind_err (if x = JNull then Inr [] else js_ToString N x) (\<lambda>s.
     bind_err (ToString_elems N xs) (\<lambda>ss. Inr (s # ss)))"

text \<open>\<^verbatim>\<open>xs.join(sep)\<close> on an array of values: \<open>undefined\<close> and \<open>null\<close> give
  the empty string, every other element its \<open>ToString\<close>.\<close>

fun join_elem :: "builtins \<Rightarrow> json option \<Rightarrow> js_error + string" where
  "join_elem B None = Inr []"
| "join_elem B (Some JNull) = Inr []"
| "join_elem B (Some v) = js_ToString (Number_toString B) v"

fun map_err :: "('a \<Rightarrow> js_error + 'b) \<Rightarrow> 'a list \<Rightarrow> js_error + 'b list" where
  "map_err f [] = Inr []"
| "map_err f (x # xs) =
     bind_err (f x) (\<lambda>y. bind_err (map_err f xs) (\<lambda>ys. Inr (y # ys)))"

fun filter_err :: "('a \<Rightarrow> js_error + bool) \<Rightarrow> 'a list \<Rightarrow> js_error + 'a list" where
  "filter_err p [] = Inr []"
| "filter_err p (x # xs) =
     bind_err (p x) (\<lambda>keep.
     bind_err (filter_err p xs) (\<lambda>ys. Inr (if keep then x # ys else ys)))"

definition js_join :: "builtins \<Rightarrow> string \<Rightarrow> json option list \<Rightarrow> js_error + string" where
  "js_join B sep xs = bind_err (map_err (join_elem B) xs) (\<lambda>ss. Inr (join_strings sep ss))"

section \<open>The line model and the parser (\<^verbatim>\<open>initialize\<close>)\<close>

text \<open>
  \<^verbatim>\<open>interface SessionLine\<close>. The field \<open>type\<close> is declared a string, but the code
  stores whatever value the probe of line 70 returns, so it is a \<open>json option\<close>.
\<close>

record SessionLine =
  index :: nat
  line :: string
  type :: "json option"
  content :: "string option"
  selected :: bool
  isMessage :: bool

definition LF :: char where
  "LF = CHR 0x0A"

definition CR :: char where
  "CR = CHR 0x0D"

text \<open>\<^verbatim>\<open>s.split(/\r?\n/)\<close>: a separator is a line feed, together with the carriage
  return right before it when there is one. The empty string splits into one empty segment.\<close>

fun split_lines :: "string \<Rightarrow> string list" where
  "split_lines [] = [[]]"
| "split_lines [c] = (if c = LF then [[], []] else [[c]])"
| "split_lines (c # d # cs) =
     (if c = LF then [] # split_lines (d # cs)
      else if c = CR \<and> d = LF then [] # split_lines cs
      else (case split_lines (d # cs) of
              l # ls \<Rightarrow> (c # l) # ls
            | [] \<Rightarrow> [[c]]))"

text \<open>The white space and line terminators that \<^verbatim>\<open>trim\<close> removes, among the code
  units up to 0xFF: TAB, LF, VT, FF, CR, SP and NBSP.\<close>

definition isWhiteSpace :: "char \<Rightarrow> bool" where
  "isWhiteSpace c = (c \<in> set [CHR 0x09, CHR 0x0A, CHR 0x0B, CHR 0x0C, CHR 0x0D, CHR 0x20, CHR 0xA0])"

definition js_trim :: "string \<Rightarrow> string" where
  "js_trim s = rev (dropWhile isWhiteSpace (rev (dropWhile isWhiteSpace s)))"

text \<open>The test of line 62: \<^verbatim>\<open>!line || line.trim() === ''\<close>.\<close>

definition is_blank :: "string \<Rightarrow> bool" where
  "is_blank raw = (raw = [] \<or> js_trim raw = [])"

text \<open>Line 70: \<^verbatim>\<open>parsed.type || parsed.message?.type || parsed.message?.role || 'unknown'\<close>.\<close>

definition extract_msgType :: "json \<Rightarrow> js_error + json option" where
  "extract_msgType parsed =
     bind_err (js_get parsed ''type'') (\<lambda>t.
       if ToBoolean t then Inr t
       else bind_err (js_get parsed ''message'') (\<lambda>message.
         Inr (js_or (js_or (js_chain message ''type'') (js_chain message ''role''))
                    (Some (JStr ''unknown'')))))"

text \<open>The callback of \<^verbatim>\<open>filter\<close>, line 81:
  \<^verbatim>\<open>item.type === 'text' && item.text\<close>, read as a boolean.\<close>

definition is_text_item :: "json \<Rightarrow> js_error + bool" where
  "is_text_item item =
     bind_err (js_get item ''type'') (\<lambda>t.
       if t = Some (JStr ''text'')
       then bind_err (js_get item ''text'') (\<lambda>x. Inr (ToBoolean x))
       else Inr False)"

text \<open>Lines 71 to 86: the content, starting from the empty string.\<close>

definition extract_content :: "builtins \<Rightarrow> json \<Rightarrow> js_error + string" where
  "extract_content B parsed =
     bind_err (js_get parsed ''content'') (\<lambda>c.
       case c of
         Some (JStr s) \<Rightarrow> Inr s
       | _ \<Rightarrow>
         bind_err (js_get parsed ''message'') (\<lambda>message.
           case js_chain message ''content'' of
             Some (JStr s) \<Rightarrow> Inr s
           | Some (JArr items) \<Rightarrow>
               bind_err (filter_err is_text_item items) (\<lambda>kept.
               bind_err (map_err (\<lambda>item. js_get item ''text'') kept) (\<lambda>texts.
               bind_err (js_join B [LF] texts) (\<lambda>joined.
                 Inr (if joined \<noteq> [] then joined else ''[Complex content]''))))
           | Some v \<Rightarrow>
               if ToBoolean (Some v) then Inr (JSON_stringify B v) else Inr []
           | None \<Rightarrow> Inr []))"

text \<open>The body of the \<^verbatim>\<open>try\<close> block up to line 86: everything that can throw.\<close>

definition try_block :: "builtins \<Rightarrow> string \<Rightarrow> js_error + (json option \<times> string)" where
  "try_block B raw =
     bind_err (case JSON_parse B raw of None \<Rightarrow> Inl SyntaxError | Some p \<Rightarrow> Inr p) (\<lambda>parsed.
     bind_err (extract_msgType parsed) (\<lambda>msgType.
     bind_err (extract_content B parsed) (\<lambda>content.
       Inr (msgType, content))))"

text \<open>The callback of \<^verbatim>\<open>rawLines.map\<close>, lines 54 to 97. The record is updated only
  at lines 88 to 90, after the last expression that can throw; the \<^verbatim>\<open>catch\<close> block
  is empty, so an exception leaves the record as it was created.\<close>

definition parse_line :: "builtins \<Rightarrow> string \<Rightarrow> nat \<Rightarrow> SessionLine" where
  "parse_line B raw i =
     (let sessionLine = \<lparr>index = i, line = raw, type = None, content = None,
                         selected = True, isMessage = False\<rparr>
      in if is_blank raw then sessionLine
         else (case try_block B raw of
                 Inl e \<Rightarrow> sessionLine
               | Inr (msgType, c) \<Rightarrow>
                   sessionLine\<lparr>type := msgType, content := Some c,
                     isMessage := (msgType \<in> set [Some (JStr ''user''), Some (JStr ''assistant''),
                                                 Some (JStr ''message''), Some (JStr ''system'')])\<rparr>))"

text \<open>Lines 51 to 97: split the content and parse every segment with its position.\<close>

definition parse_content :: "builtins \<Rightarrow> string \<Rightarrow> SessionLine list" where
  "parse_content B text =
     (let rawLines = split_lines text
      in map2 (parse_line B) rawLines [0 ..< length rawLines])"

section \<open>The manager, the storage and the operations on the session\<close>

text \<open>The fields of \<^verbatim>\<open>class ClaudeSessionManager\<close>.\<close>

record ClaudeSessionManager =
  sessionId :: string
  sessionFile :: string
  backupDir :: string
  lines :: "SessionLine list"
  originalContent :: string

text \<open>\<^verbatim>\<open>path.join\<close>, without the normalisation of the result.\<close>

definition path_join :: "string list \<Rightarrow> string" where
  "path_join parts = join_strings ''/'' parts"

definition replace_char :: "char \<Rightarrow> char \<Rightarrow> string \<Rightarrow> string" where
  "replace_char a b s = map (\<lambda>c. if c = a then b else c) s"

text \<open>The constructor, lines 35 to 40; the home directory and the working directory of the
  process are arguments.\<close>

definition new_manager :: "string \<Rightarrow> string \<Rightarrow> string \<Rightarrow> ClaudeSessionManager" where
  "new_manager homedir cwd sid =
     (let cwdProject = replace_char CHR ''/'' CHR ''-'' cwd
      in \<lparr>sessionId = sid,
          sessionFile = path_join [homedir, ''.claude'', ''projects'', cwdProject, sid @ ''.jsonl''],
          backupDir = path_join [homedir, ''.claude'', ''projects'', cwdProject,
                                 ''session-manager-backups''],
          lines = [],
          originalContent = []\<rparr>)"

text \<open>
  The storage: the content of every file that exists, and the calls of
  \<^verbatim>\<open>fs.writeFile\<close> made so far, oldest first, each with its path and data.
  Whether a write succeeds is an input of the model. A write that fails leaves at its path
  whatever the failed call left there (the old content, nothing, or part of the data):
  the argument of \<open>WriteFailed\<close>.
\<close>

record world =
  files :: "string \<rightharpoonup> string"
  writeFile_calls :: "(string \<times> string) list"

datatype write_outcome = Written | WriteFailed "string option"

definition fs_writeFile ::
  "world \<Rightarrow> string \<Rightarrow> string \<Rightarrow> write_outcome \<Rightarrow> (js_error + unit) \<times> world" where
  "fs_writeFile w path data outcome =
     (let w1 = w\<lparr>writeFile_calls := writeFile_calls w @ [(path, data)]\<rparr>
      in case outcome of
           Written \<Rightarrow> (Inr (), w1\<lparr>files := (files w1)(path \<mapsto> data)\<rparr>)
         | WriteFailed residue \<Rightarrow> (Inl IOError, w1\<lparr>files := (files w1)(path := residue)\<rparr>))"

text \<open>\<^verbatim>\<open>initialize\<close>, lines 42 to 98: it throws when the session file does not
  exist. \<^verbatim>\<open>ensureDir\<close> changes no file content, and reading a file that exists
  gives its content.\<close>

definition initialize ::
  "builtins \<Rightarrow> ClaudeSessionManager \<Rightarrow> world \<Rightarrow> js_error + ClaudeSessionManager" where
  "initialize B m w =
     (case files w (sessionFile m) of
        None \<Rightarrow> Inl (SessionNotFound (sessionFile m))
      | Some text \<Rightarrow> Inr (m\<lparr>lines := parse_content B text, originalContent := text\<rparr>))"

text \<open>\<^verbatim>\<open>selectIndividual\<close>, lines 261 to 266; \<open>chosen\<close> is the answer of the checkbox
  prompt, the array \<^verbatim>\<open>selected\<close> of the source.\<close>

definition selectIndividual :: "ClaudeSessionManager \<Rightarrow> nat list \<Rightarrow> ClaudeSessionManager" where
  "selectIndividual m chosen =
     m\<lparr>lines := map (\<lambda>l. if isMessage l then l\<lparr>selected := (index l \<in> set chosen)\<rparr> else l)
                     (lines m)\<rparr>"

text \<open>The loop of \<^verbatim>\<open>selectByType\<close>, lines 290 to 295, with its counter.\<close>

fun selectByType_forEach ::
  "string \<Rightarrow> bool \<Rightarrow> SessionLine list \<Rightarrow> nat \<Rightarrow> SessionLine list \<times> nat" where
  "selectByType_forEach msgType shouldSelect [] n = ([], n)"
| "selectByType_forEach msgType shouldSelect (l # ls) n =
     (if type l = Some (JStr msgType)
      then (case selectByType_forEach msgType shouldSelect ls (n + 1) of
              (ls', n') \<Rightarrow> (l\<lparr>selected := shouldSelect\<rparr> # ls', n'))
      else (case selectByType_forEach msgType shouldSelect ls n of
              (ls', n') \<Rightarrow> (l # ls', n')))"

text \<open>\<^verbatim>\<open>selectByType\<close>, lines 287 to 295; \<open>msgType\<close> and \<open>action\<close> are the answers
  of the two prompts; the result carries the count that the code prints.\<close>

definition selectByType ::
  "ClaudeSessionManager \<Rightarrow> string \<Rightarrow> string \<Rightarrow> ClaudeSessionManager \<times> nat" where
  "selectByType m msgType action =
     (let shouldSelect = (action = ''Select'')
      in case selectByType_forEach msgType shouldSelect (lines m) 0 of
           (ls, n) \<Rightarrow> (m\<lparr>lines := ls\<rparr>, n))"

text \<open>\<^verbatim>\<open>selectMessages\<close>, lines 207 to 240: the answer of the mode prompt, with the
  answers of the prompts that follow it.\<close>

datatype selection_mode =
    Mode_individual "nat list"
  | Mode_all
  | Mode_none
  | Mode_type string string

fun selectMessages :: "ClaudeSessionManager \<Rightarrow> selection_mode \<Rightarrow> ClaudeSessionManager" where
  "selectMessages m (Mode_individual chosen) = selectIndividual m chosen"
| "selectMessages m Mode_all = m\<lparr>lines := map (\<lambda>l. l\<lparr>selected := True\<rparr>) (lines m)\<rparr>"
| "selectMessages m Mode_none = m\<lparr>lines := map (\<lambda>l. l\<lparr>selected := False\<rparr>) (lines m)\<rparr>"
| "selectMessages m (Mode_type msgType action) = fst (selectByType m msgType action)"

text \<open>The name of the backup file, lines 327 and 328; \<open>now\<close> is
  \<^verbatim>\<open>new Date().toISOString()\<close>.\<close>

definition backupFile :: "ClaudeSessionManager \<Rightarrow> string \<Rightarrow> string" where
  "backupFile m now =
     (let timestamp = replace_char CHR '':'' CHR ''-'' now
      in path_join [backupDir m, sessionId m @ ''.'' @ timestamp @ ''.jsonl''])"

text \<open>
  \<^verbatim>\<open>saveChanges\<close>, lines 303 to 347. \<open>confirm\<close> is the answer of the prompt; the two
  outcomes are those of the backup write and of the write of the session file. An
  exception of either write goes to the \<^verbatim>\<open>catch\<close> block, which only reports it.
\<close>

definition saveChanges ::
  "ClaudeSessionManager \<Rightarrow> world \<Rightarrow> bool \<Rightarrow> string \<Rightarrow> write_outcome \<Rightarrow> write_outcome
     \<Rightarrow> ClaudeSessionManager \<times> world" where
  "saveChanges m w confirm now backup_outcome save_outcome =
     (let selectedLines = filter selected (lines m)
      in if \<not> confirm then (m, w)
         else (case fs_writeFile w (backupFile m now) (originalContent m) backup_outcome of
                 (Inl e, w1) \<Rightarrow> (m, w1)
               | (Inr u, w1) \<Rightarrow>
                   (let output = join_strings [LF] (map line selectedLines)
                    in case fs_writeFile w1 (sessionFile m) output save_outcome of
                         (Inl e, w2) \<Rightarrow> (m, w2)
                       | (Inr u', w2) \<Rightarrow> (m\<lparr>originalContent := output\<rparr>, w2))))"

section \<open>Terms in which the properties are stated\<close>

text \<open>Loading a session and saving it at once, every line still selected, the save
  confirmed and both writes successful: the content of the session file afterwards.\<close>

definition load_then_save ::
  "builtins \<Rightarrow> ClaudeSessionManager \<Rightarrow> world \<Rightarrow> string \<Rightarrow> string option" where
  "load_then_save B m w now =
     (case initialize B m w of
        Inl e \<Rightarrow> None
      | Inr m1 \<Rightarrow> files (snd (saveChanges m1 w True now Written Written)) (sessionFile m1))"

text \<open>A text with every \<open>\r\n\<close> replaced by \<open>\n\<close>, and whether a text holds a
  \<open>\r\n\<close>.\<close>

fun crlf_to_lf :: "string \<Rightarrow> string" where
  "crlf_to_lf (c # d # cs) =
     (if c = CR \<and> d = LF then LF # crlf_to_lf cs else c # crlf_to_lf (d # cs))"
| "crlf_to_lf cs = cs"

fun has_crlf :: "string \<Rightarrow> bool" where
  "has_crlf (c # d # cs) = (if c = CR \<and> d = LF then True else has_crlf (d # cs))"
| "has_crlf cs = False"

text \<open>The specification's equality of contents "aside from any trailing-newline
  normalization": the two texts are equal once their trailing line breaks are removed.\<close>

definition spec_strip_trailing_newlines :: "string \<Rightarrow> string" where
  "spec_strip_trailing_newlines s = rev (dropWhile (\<lambda>c. c = LF \<or> c = CR) (rev s))"

definition spec_same_upto_trailing_newline :: "string \<Rightarrow> string \<Rightarrow> bool" where
  "spec_same_upto_trailing_newline a b =
     (spec_strip_trailing_newlines a = spec_strip_trailing_newlines b)"

text \<open>The specification's record kind, by presence: the top-level \<open>type\<close> field if the
  value has one, else the \<open>type\<close> field of the nested message object, else its \<open>role\<close>
  field, else \<open>unknown\<close>.\<close>

definition spec_recordKind :: "json \<Rightarrow> json" where
  "spec_recordKind v =
     (case js_chain (Some v) ''type'' of
        Some t \<Rightarrow> t
      | None \<Rightarrow>
        (case js_chain (js_chain (Some v) ''message'') ''type'' of
           Some t \<Rightarrow> t
         | None \<Rightarrow>
           (case js_chain (js_chain (Some v) ''message'') ''role'' of
              Some r \<Rightarrow> r
            | None \<Rightarrow> JStr ''unknown'')))"

text \<open>\<^verbatim>\<open>typeof x === 'string'\<close> and \<^verbatim>\<open>Array.isArray(x)\<close>.\<close>

fun typeof_string :: "json option \<Rightarrow> bool" where
  "typeof_string (Some (JStr s)) = True"
| "typeof_string x = False"

fun Array_isArray :: "json option \<Rightarrow> bool" where
  "Array_isArray (Some (JArr xs)) = True"
| "Array_isArray x = False"

text \<open>A parsed value with none of the content fields the code recognises: each of the four
  conditions of lines 74 to 84 is false.\<close>

definition no_content_fields :: "json \<Rightarrow> bool" where
  "no_content_fields parsed =
     (\<not> typeof_string (js_chain (Some parsed) ''content'')
      \<and> \<not> typeof_string (js_chain (js_chain (Some parsed) ''message'') ''content'')
      \<and> \<not> Array_isArray (js_chain (js_chain (Some parsed) ''message'') ''content'')
      \<and> \<not> ToBoolean (js_chain (js_chain (Some parsed) ''message'') ''content''))"

section \<open>Example inputs\<close>

text \<open>
  An engine for running the model on given lines: \<^verbatim>\<open>JSON.parse\<close> is the table of
  the values of these lines, and every other text is not JSON. The two string conversions
  are not reached on the examples below.
\<close>

definition table_builtins :: "(string \<times> json) list \<Rightarrow> builtins" where
  "table_builtins tbl =
     \<lparr>JSON_parse = map_of tbl, JSON_stringify = (\<lambda>v. []), Number_toString = (\<lambda>n. [])\<rparr>"

definition example_lines :: "SessionLine list" where
  \<open>example_lines =
     [\<lparr>index = 0, line = ''{"type":"user","content":"hi"}'', type = Some (JStr ''user''),
        content = Some ''hi'', selected = True, isMessage = True\<rparr>,
      \<lparr>index = 1, line = [], type = None, content = None, selected = True,
        isMessage = False\<rparr>,
      \<lparr>index = 2, line = ''not json'', type = None, content = None, selected = False,
        isMessage = False\<rparr>,
      \<lparr>index = 3, line = ''{"type":"summary"}'', type = Some (JStr ''summary''),
        content = Some [], selected = True, isMessage = False\<rparr>]\<close>

definition example_manager :: ClaudeSessionManager where
  "example_manager =
     (new_manager ''/home/u'' ''/work/proj'' ''s1'')
       \<lparr>lines := example_lines, originalContent := ''old content''\<rparr>"

definition example_world :: world where
  "example_world =
     \<lparr>files = [''/home/u/.claude/projects/-work-proj/s1.jsonl'' \<mapsto> ''old content''],
      writeFile_calls = []\<rparr>"

text \<open>Lines with the values \<^verbatim>\<open>JSON.parse\<close> gives for them.\<close>

definition example_table :: "(string \<times> json) list" where
  \<open>example_table =
     [(''{"type":"user"}'', JObj [(''type'', JStr ''user'')]),
      (''{"type":"","message":{"role":"user"}}'',
         JObj [(''type'', JStr []), (''message'', JObj [(''role'', JStr ''user'')])]),
      (''{"message":{"role":"assistant","content":[{"type":"text","text":"hello"}]}}'',
         JObj [(''message'', JObj [(''role'', JStr ''assistant''),
           (''content'', JArr [JObj [(''type'', JStr ''text''), (''text'', JStr ''hello'')]])])]),
      (''{"type":"user","message":{"content":[null]}}'',
         JObj [(''type'', JStr ''user''), (''message'', JObj [(''content'', JArr [JNull])])]),
      (''null'', JNull)]\<close>

section \<open>Properties of the parser\<close>

lemma split_lines_not_Nil: "split_lines s \<noteq> []"
  by (induction s rule: split_lines.induct) (auto split: list.splits)

lemma split_lines_length:
  "length (split_lines s) = Suc (count_list s LF)"
proof (induction s rule: split_lines.induct)
  case 1
  show ?case by simp
next
  case (2 c)
  show ?case by simp
next
  case (3 c d cs)
  obtain l ls where "split_lines (d # cs) = l # ls"
    using split_lines_not_Nil [of "d # cs"] by (cases "split_lines (d # cs)") auto
  with 3 show ?case
    by (auto simp: LF_def CR_def)
qed

lemma parse_content_length:
  "length (parse_content B s) = length (split_lines s)"
  by (simp add: parse_content_def Let_def)

text \<open>
  C10. Parsing gives one SessionLine per segment of the split: one more than the number of
  line-break separators (each separator, \<open>\n\<close> or \<open>\r\n\<close>, holds exactly one line feed,
  and every line feed ends one). The empty string gives exactly one line, with empty text,
  selected and not a message; so a loaded session never has zero lines.
\<close>

theorem parse_one_line_per_segment:
  "length (parse_content B s) = Suc (count_list s LF)
   \<and> parse_content B [] = [\<lparr>index = 0, line = [], type = None, content = None,
                              selected = True, isMessage = False\<rparr>]
   \<and> 1 \<le> length (parse_content B s)"
  by (simp add: parse_content_length split_lines_length)
     (simp add: parse_content_def parse_line_def is_blank_def)

section \<open>The round trip of load and save\<close>

lemma example_paths:
  "sessionFile example_manager = ''/home/u/.claude/projects/-work-proj/s1.jsonl''"
  "backupFile example_manager ''2026-01-02T03:04:05.678Z''
     = ''/home/u/.claude/projects/-work-proj/session-manager-backups/s1.2026-01-02T03-04-05.678Z.jsonl''"
  "originalContent example_manager = ''old content''"
  "lines example_manager = example_lines"
  by (simp_all add: example_manager_def new_manager_def backupFile_def path_join_def
        replace_char_def)

lemma join_strings_Cons:
  "ss \<noteq> [] \<Longrightarrow> join_strings sep (s # ss) = s @ sep @ join_strings sep ss"
  by (cases ss) simp_all

lemma join_split_lines: "join_strings [LF] (split_lines s) = crlf_to_lf s"
proof (induction s rule: split_lines.induct)
  case 1
  show ?case by simp
next
  case (2 c)
  show ?case by simp
next
  case (3 c d cs)
  obtain l ls where e: "split_lines (d # cs) = l # ls"
    using split_lines_not_Nil [of "d # cs"] by (cases "split_lines (d # cs)") auto
  have n: "split_lines cs \<noteq> []" "split_lines (d # cs) \<noteq> []"
    by (rule split_lines_not_Nil)+
  show ?case
  proof (cases "c = LF")
    case True
    with 3 n show ?thesis by (simp add: join_strings_Cons LF_def CR_def)
  next
    case nl: False
    show ?thesis
    proof (cases "c = CR \<and> d = LF")
      case True
      with 3 nl n show ?thesis by (simp add: join_strings_Cons)
    next
      case False
      with 3 nl have ih: "join_strings [LF] (l # ls) = crlf_to_lf (d # cs)"
        using e by simp
      have "join_strings [LF] ((c # l) # ls) = c # join_strings [LF] (l # ls)"
        by (cases ls) simp_all
      with False nl e ih show ?thesis by auto
    qed
  qed
qed

lemma parse_line_line: "line (parse_line B raw i) = raw"
  by (simp add: parse_line_def Let_def split: sum.splits prod.splits)

lemma parse_line_selected: "selected (parse_line B raw i) = True"
  by (simp add: parse_line_def Let_def split: sum.splits prod.splits)

lemma parse_content_lines: "map line (parse_content B s) = split_lines s"
  by (rule nth_equalityI) (simp_all add: parse_content_def Let_def parse_line_line)

lemma parse_content_selected: "filter selected (parse_content B s) = parse_content B s"
proof -
  have "\<forall>l \<in> set (parse_content B s). selected l"
    by (auto simp: parse_content_def Let_def parse_line_selected set_zip)
  then show ?thesis by simp
qed

lemma crlf_to_lf_length: "length (crlf_to_lf s) \<le> length s"
  by (induction s rule: crlf_to_lf.induct) auto

lemma crlf_to_lf_id: "(crlf_to_lf s = s) = (\<not> has_crlf s)"
proof (induction s rule: crlf_to_lf.induct)
  case (1 c d cs)
  show ?case
  proof (cases "c = CR \<and> d = LF")
    case True
    have "LF # crlf_to_lf cs \<noteq> c # d # cs"
    proof
      assume "LF # crlf_to_lf cs = c # d # cs"
      then have "length (LF # crlf_to_lf cs) = length (c # d # cs)" by simp
      with crlf_to_lf_length [of cs] show False by simp
    qed
    with True show ?thesis by simp
  next
    case False
    with 1 show ?thesis by auto
  qed
qed simp_all

lemma load_then_save_output:
  "files w (sessionFile m) = Some text \<Longrightarrow> load_then_save B m w now = Some (crlf_to_lf text)"
  by (simp add: load_then_save_def initialize_def saveChanges_def fs_writeFile_def Let_def
        parse_content_selected parse_content_lines join_split_lines)

text \<open>
  C2, as amended. Loading any content and saving it at once, with every line selected, the
  save confirmed and both writes successful, writes the content with every \<open>\r\n\<close>
  replaced by \<open>\n\<close>; the output is the original content exactly when the content
  holds no \<open>\r\n\<close> (a trailing newline is kept as it is).
\<close>

theorem roundtrip_normalises_crlf:
  assumes "files w (sessionFile m) = Some text"
  shows "load_then_save B m w now = Some (crlf_to_lf text)
       \<and> (crlf_to_lf text = text) = (\<not> has_crlf text)"
  using assms by (simp add: load_then_save_output crlf_to_lf_id)

theorem roundtrip_normalises_crlf_witness:
  "files example_world (sessionFile example_manager) = Some ''old content''
   \<and> load_then_save (table_builtins []) example_manager example_world
        ''2026-01-02T03:04:05.678Z'' = Some ''old content''"
proof -
  have h: "files example_world (sessionFile example_manager) = Some ''old content''"
    by (simp add: example_world_def example_manager_def new_manager_def path_join_def
          replace_char_def)
  have "crlf_to_lf ''old content'' = ''old content''"
    by (simp add: CR_def)
  with h roundtrip_normalises_crlf [OF h, of "table_builtins []" "''2026-01-02T03:04:05.678Z''"]
  show ?thesis by simp
qed

text \<open>
  C2, as stated, fails on a content with a \<open>\r\n\<close> inside: \<open>a\r\nb\<close> is saved as
  \<open>a\nb\<close>, which differs from it by more than trailing line breaks.
\<close>

theorem roundtrip_crlf_counterexample:
  "load_then_save (table_builtins []) example_manager
        \<lparr>files = [sessionFile example_manager \<mapsto> [CHR ''a'', CR, LF, CHR ''b'']],
         writeFile_calls = []\<rparr>
        ''2026-01-02T03:04:05.678Z'' = Some [CHR ''a'', LF, CHR ''b'']
   \<and> \<not> spec_same_upto_trailing_newline [CHR ''a'', LF, CHR ''b''] [CHR ''a'', CR, LF, CHR ''b'']"
proof -
  have "load_then_save (table_builtins []) example_manager
        \<lparr>files = [sessionFile example_manager \<mapsto> [CHR ''a'', CR, LF, CHR ''b'']],
         writeFile_calls = []\<rparr>
        ''2026-01-02T03:04:05.678Z'' = Some (crlf_to_lf [CHR ''a'', CR, LF, CHR ''b''])"
    by (rule load_then_save_output) simp
  moreover have "crlf_to_lf [CHR ''a'', CR, LF, CHR ''b''] = [CHR ''a'', LF, CHR ''b'']"
    by (simp add: CR_def LF_def)
  moreover have "\<not> spec_same_upto_trailing_newline [CHR ''a'', LF, CHR ''b''] [CHR ''a'', CR, LF, CHR ''b'']"
    by (simp add: spec_same_upto_trailing_newline_def spec_strip_trailing_newlines_def CR_def LF_def)
  ultimately show ?thesis by simp
qed

section \<open>Selection\<close>

lemma selectByType_forEach_length:
  "length (fst (selectByType_forEach k v ls n)) = length ls"
  by (induction ls arbitrary: n) (simp_all add: case_prod_beta)

lemma selectByType_forEach_nth:
  "i < length ls \<Longrightarrow>
   fst (selectByType_forEach k v ls n) ! i =
     (if type (ls ! i) = Some (JStr k) then (ls ! i)\<lparr>selected := v\<rparr> else ls ! i)"
proof (induction ls arbitrary: n i)
  case Nil
  then show ?case by simp
next
  case (Cons l ls)
  show ?case
  proof (cases i)
    case 0
    then show ?thesis by (simp add: case_prod_beta)
  next
    case (Suc j)
    with Cons.prems have "j < length ls" by simp
    from Cons.IH [OF this] Suc show ?thesis by (simp add: case_prod_beta)
  qed
qed

lemma selectByType_forEach_count:
  "snd (selectByType_forEach k v ls n) = n + length (filter (\<lambda>l. type l = Some (JStr k)) ls)"
  by (induction ls arbitrary: n) (simp_all add: case_prod_beta)

text \<open>
  C8. Selecting by type sets the flag to the requested value on exactly the lines whose
  type is the given string and leaves every other line as it was (a blank or non-JSON line
  has no type and is never matched); the count is the number of lines matched.
\<close>

theorem selectByType_exact:
  "length (lines (fst (selectByType m k action))) = length (lines m)
   \<and> (\<forall>i < length (lines m).
        lines (fst (selectByType m k action)) ! i =
          (if type (lines m ! i) = Some (JStr k)
           then (lines m ! i)\<lparr>selected := (action = ''Select'')\<rparr>
           else lines m ! i))
   \<and> (\<forall>i < length (lines m).
        type (lines m ! i) = None \<longrightarrow> lines (fst (selectByType m k action)) ! i = lines m ! i)
   \<and> snd (selectByType m k action) = length (filter (\<lambda>l. type l = Some (JStr k)) (lines m))"
proof -
  obtain ls n where e: "selectByType_forEach k (action = ''Select'') (lines m) 0 = (ls, n)"
    by (cases "selectByType_forEach k (action = ''Select'') (lines m) 0")
  have 1: "length ls = length (lines m)"
    using selectByType_forEach_length [of k "action = ''Select''" "lines m" 0] e by simp
  have 2: "\<And>i. i < length (lines m) \<Longrightarrow> ls ! i =
          (if type (lines m ! i) = Some (JStr k)
           then (lines m ! i)\<lparr>selected := (action = ''Select'')\<rparr>
           else lines m ! i)"
    using selectByType_forEach_nth [of _ "lines m" k "action = ''Select''" 0] e by simp
  have 3: "n = length (filter (\<lambda>l. type l = Some (JStr k)) (lines m))"
    using selectByType_forEach_count [of k "action = ''Select''" "lines m" 0] e by simp
  show ?thesis
    using 1 2 3 e by (simp add: selectByType_def)
qed

theorem selectByType_exact_witness:
  \<open>lines (fst (selectByType example_manager ''user'' ''Deselect'')) =
     [\<lparr>index = 0, line = ''{"type":"user","content":"hi"}'', type = Some (JStr ''user''),
        content = Some ''hi'', selected = False, isMessage = True\<rparr>,
      \<lparr>index = 1, line = [], type = None, content = None, selected = True,
        isMessage = False\<rparr>,
      \<lparr>index = 2, line = ''not json'', type = None, content = None, selected = False,
        isMessage = False\<rparr>,
      \<lparr>index = 3, line = ''{"type":"summary"}'', type = Some (JStr ''summary''),
        content = Some [], selected = True, isMessage = False\<rparr>]
   \<and> snd (selectByType example_manager ''user'' ''Deselect'') = 1\<close>
  using selectByType_exact [of example_manager "''user''" "''Deselect''"]
  by (simp add: example_manager_def example_lines_def new_manager_def selectByType_def)

text \<open>
  C7. Toggling individual messages sets the flag of every message line to the membership
  of its index in the chosen indices, and leaves every line that is not a message
  unchanged, whether or not its index is chosen.
\<close>

theorem selectIndividual_scope:
  "length (lines (selectIndividual m chosen)) = length (lines m)
   \<and> (\<forall>i < length (lines m).
        lines (selectIndividual m chosen) ! i =
          (if isMessage (lines m ! i)
           then (lines m ! i)\<lparr>selected := (index (lines m ! i) \<in> set chosen)\<rparr>
           else lines m ! i))
   \<and> selectMessages m (Mode_individual chosen) = selectIndividual m chosen"
  by (simp add: selectIndividual_def)

theorem selectIndividual_scope_witness:
  \<open>lines (selectIndividual example_manager [1, 2]) =
     [\<lparr>index = 0, line = ''{"type":"user","content":"hi"}'', type = Some (JStr ''user''),
        content = Some ''hi'', selected = False, isMessage = True\<rparr>,
      \<lparr>index = 1, line = [], type = None, content = None, selected = True,
        isMessage = False\<rparr>,
      \<lparr>index = 2, line = ''not json'', type = None, content = None, selected = False,
        isMessage = False\<rparr>,
      \<lparr>index = 3, line = ''{"type":"summary"}'', type = Some (JStr ''summary''),
        content = Some [], selected = True, isMessage = False\<rparr>]\<close>
  using selectIndividual_scope [of example_manager "[1, 2]"]
  by (simp add: example_manager_def example_lines_def new_manager_def selectIndividual_def)

text \<open>
  C9. Select all and deselect all set the flag on every line of the session: blank lines,
  non-JSON lines and JSON lines that are not messages included.
\<close>

theorem toggleAll_every_line:
  "lines (selectMessages m (if v then Mode_all else Mode_none)) =
     map (\<lambda>l. l\<lparr>selected := v\<rparr>) (lines m)
   \<and> length (lines (selectMessages m (if v then Mode_all else Mode_none))) = length (lines m)
   \<and> (\<forall>l \<in> set (lines (selectMessages m (if v then Mode_all else Mode_none))). selected l = v)"
  by auto

theorem toggleAll_every_line_witness:
  \<open>lines (selectMessages example_manager Mode_none) =
     [\<lparr>index = 0, line = ''{"type":"user","content":"hi"}'', type = Some (JStr ''user''),
        content = Some ''hi'', selected = False, isMessage = True\<rparr>,
      \<lparr>index = 1, line = [], type = None, content = None, selected = False,
        isMessage = False\<rparr>,
      \<lparr>index = 2, line = ''not json'', type = None, content = None, selected = False,
        isMessage = False\<rparr>,
      \<lparr>index = 3, line = ''{"type":"summary"}'', type = Some (JStr ''summary''),
        content = Some [], selected = False, isMessage = False\<rparr>]\<close>
  using toggleAll_every_line [of example_manager False]
  by (simp add: example_manager_def example_lines_def new_manager_def)

section \<open>Saving\<close>

lemma saveChanges_unconfirmed: "saveChanges m w False now o1 o2 = (m, w)"
  by (simp add: saveChanges_def)

lemma saveChanges_backup_failed:
  "saveChanges m w True now (WriteFailed r) o2 =
     (m, w\<lparr>writeFile_calls := writeFile_calls w @ [(backupFile m now, originalContent m)],
           files := (files w)(backupFile m now := r)\<rparr>)"
  by (simp add: saveChanges_def fs_writeFile_def Let_def)

lemma saveChanges_save_failed:
  "saveChanges m w True now Written (WriteFailed r) =
     (m, w\<lparr>writeFile_calls := writeFile_calls w @
              [(backupFile m now, originalContent m),
               (sessionFile m, join_strings [LF] (map line (filter selected (lines m))))],
           files := (files w)(backupFile m now \<mapsto> originalContent m, sessionFile m := r)\<rparr>)"
  by (simp add: saveChanges_def fs_writeFile_def Let_def)

lemma saveChanges_success:
  "saveChanges m w True now Written Written =
     (m\<lparr>originalContent := join_strings [LF] (map line (filter selected (lines m)))\<rparr>,
      w\<lparr>writeFile_calls := writeFile_calls w @
              [(backupFile m now, originalContent m),
               (sessionFile m, join_strings [LF] (map line (filter selected (lines m))))],
        files := (files w)(backupFile m now \<mapsto> originalContent m,
                           sessionFile m \<mapsto> join_strings [LF] (map line (filter selected (lines m))))\<rparr>)"
  by (simp add: saveChanges_def fs_writeFile_def Let_def)

text \<open>The paths the constructor builds: the backup file is never the session file.\<close>

lemma constructor_paths_differ:
  assumes "sessionFile m = sessionFile (new_manager homedir cwd sid)"
    and "backupDir m = backupDir (new_manager homedir cwd sid)"
    and "sessionId m = sid"
  shows "backupFile m now \<noteq> sessionFile m"
proof
  assume "backupFile m now = sessionFile m"
  then have "length (backupFile m now) = length (sessionFile m)" by simp
  with assms show False
    by (simp add: backupFile_def new_manager_def path_join_def replace_char_def Let_def)
qed

lemma join_strings_length:
  "length (join_strings sep ss) = sum_list (map length ss) + (length ss - 1) * length sep"
  by (induction sep ss rule: join_strings.induct) simp_all

text \<open>
  C1. The backup file being another file than the session file: whenever a save changes
  the session file, or so much as attempts to write it, the save was confirmed, the backup write had succeeded and the backup
  holds the content as it was before the save. When the backup write fails, the backup
  write is the only write attempted and the session file keeps its content; when the
  backup write succeeds and the write of the session file fails, the backup stays on
  storage with the original content.
\<close>

theorem backup_before_overwrite:
  assumes "backupFile m now \<noteq> sessionFile m"
  shows "(files (snd (saveChanges m w confirm now o1 o2)) (sessionFile m) \<noteq> files w (sessionFile m)
          \<or> sessionFile m \<in> fst ` set (drop (length (writeFile_calls w))
                (writeFile_calls (snd (saveChanges m w confirm now o1 o2))))
            \<longrightarrow> confirm \<and> o1 = Written
                \<and> files (snd (saveChanges m w confirm now o1 o2)) (backupFile m now)
                    = Some (originalContent m))
       \<and> writeFile_calls (snd (saveChanges m w True now (WriteFailed r) o2))
           = writeFile_calls w @ [(backupFile m now, originalContent m)]
       \<and> files (snd (saveChanges m w True now (WriteFailed r) o2)) (sessionFile m)
           = files w (sessionFile m)
       \<and> files (snd (saveChanges m w True now Written (WriteFailed r))) (backupFile m now)
           = Some (originalContent m)"
proof -
  have a: "files (snd (saveChanges m w confirm now o1 o2)) (sessionFile m) \<noteq> files w (sessionFile m)
          \<or> sessionFile m \<in> fst ` set (drop (length (writeFile_calls w))
                (writeFile_calls (snd (saveChanges m w confirm now o1 o2))))
            \<longrightarrow> confirm \<and> o1 = Written
                \<and> files (snd (saveChanges m w confirm now o1 o2)) (backupFile m now)
                    = Some (originalContent m)"
  proof (cases confirm)
    case False
    then show ?thesis by (simp add: saveChanges_unconfirmed)
  next
    case True
    show ?thesis
    proof (cases o1)
      case (WriteFailed r1)
      with True assms show ?thesis by (simp add: saveChanges_backup_failed)
    next
      case Written
      show ?thesis
      proof (cases o2)
        case (WriteFailed r2)
        with True Written assms show ?thesis by (simp add: saveChanges_save_failed)
      next
        case Written2: Written
        with True Written assms show ?thesis by (simp add: saveChanges_success)
      qed
    qed
  qed
  have b: "writeFile_calls (snd (saveChanges m w True now (WriteFailed r) o2))
           = writeFile_calls w @ [(backupFile m now, originalContent m)]"
    by (simp add: saveChanges_backup_failed)
  have c: "files (snd (saveChanges m w True now (WriteFailed r) o2)) (sessionFile m)
           = files w (sessionFile m)"
    using assms by (simp add: saveChanges_backup_failed)
  have d: "files (snd (saveChanges m w True now Written (WriteFailed r))) (backupFile m now)
           = Some (originalContent m)"
    using assms by (simp add: saveChanges_save_failed)
  from a b c d show ?thesis by blast
qed

theorem backup_before_overwrite_witness:
  "backupFile example_manager ''2026-01-02T03:04:05.678Z'' \<noteq> sessionFile example_manager
   \<and> writeFile_calls (snd (saveChanges example_manager example_world True
         ''2026-01-02T03:04:05.678Z'' (WriteFailed (Some ''old'')) Written))
       = [(''/home/u/.claude/projects/-work-proj/session-manager-backups/s1.2026-01-02T03-04-05.678Z.jsonl'',
           ''old content'')]
   \<and> files (snd (saveChanges example_manager example_world True
         ''2026-01-02T03:04:05.678Z'' (WriteFailed (Some ''old'')) Written))
         ''/home/u/.claude/projects/-work-proj/s1.jsonl'' = Some ''old content''
   \<and> files (snd (saveChanges example_manager example_world True
         ''2026-01-02T03:04:05.678Z'' Written (WriteFailed None)))
         ''/home/u/.claude/projects/-work-proj/session-manager-backups/s1.2026-01-02T03-04-05.678Z.jsonl''
       = Some ''old content''"
proof -
  have h: "backupFile example_manager ''2026-01-02T03:04:05.678Z'' \<noteq> sessionFile example_manager"
    by (simp add: example_paths)
  show ?thesis
    using h backup_before_overwrite [OF h, of example_world True "WriteFailed (Some ''old'')" Written "Some ''old''"]
      backup_before_overwrite [OF h, of example_world True Written "WriteFailed None" None]
    by (simp add: example_paths example_world_def)
qed

text \<open>
  C3. A confirmed save whose two writes succeed writes to the session file the text of
  exactly the selected lines, in file order, joined by one newline, with no newline after
  the last (its length is the lengths of the lines and one newline between each two); the
  original content in memory becomes that output. A save that is not
  confirmed, or one of whose writes fails, leaves the original content in memory as it was.
\<close>

theorem save_writes_selected_lines:
  "files (snd (saveChanges m w True now Written Written)) (sessionFile m)
     = Some (join_strings [LF] (map line (filter selected (lines m))))
   \<and> length (join_strings [LF] (map line (filter selected (lines m))))
     = sum_list (map length (map line (filter selected (lines m))))
       + (length (filter selected (lines m)) - 1)
   \<and> originalContent (fst (saveChanges m w True now Written Written))
     = join_strings [LF] (map line (filter selected (lines m)))
   \<and> (\<not> confirm \<or> o1 \<noteq> Written \<or> o2 \<noteq> Written
        \<longrightarrow> originalContent (fst (saveChanges m w confirm now o1 o2)) = originalContent m)"
proof -
  have "originalContent (fst (saveChanges m w confirm now o1 o2)) = originalContent m"
    if "\<not> confirm \<or> o1 \<noteq> Written \<or> o2 \<noteq> Written"
  proof (cases confirm)
    case False
    then show ?thesis by (simp add: saveChanges_unconfirmed)
  next
    case True
    show ?thesis
    proof (cases o1)
      case (WriteFailed r1)
      with True show ?thesis by (simp add: saveChanges_backup_failed)
    next
      case Written
      with True that obtain r2 where "o2 = WriteFailed r2" by (cases o2) auto
      with True Written show ?thesis by (simp add: saveChanges_save_failed)
    qed
  qed
  then show ?thesis by (simp add: saveChanges_success join_strings_length)
qed

theorem save_writes_selected_lines_witness:
  \<open>files (snd (saveChanges example_manager example_world True ''2026-01-02T03:04:05.678Z''
       Written Written)) ''/home/u/.claude/projects/-work-proj/s1.jsonl''
     = Some (''{"type":"user","content":"hi"}'' @ [LF] @ [LF] @ ''{"type":"summary"}'')
   \<and> originalContent (fst (saveChanges example_manager example_world True
       ''2026-01-02T03:04:05.678Z'' Written (WriteFailed None))) = ''old content''\<close>
  using save_writes_selected_lines [of example_manager example_world "''2026-01-02T03:04:05.678Z''"
      True Written "WriteFailed None"]
  by (simp add: example_paths example_lines_def)

section \<open>Type and content of a parsed line\<close>

lemma ToBoolean_Some: "ToBoolean x \<Longrightarrow> \<exists>t. x = Some t"
  by (cases x) simp_all

lemma extract_msgType_obj:
  "extract_msgType (JObj fs) =
     Inr (if ToBoolean (map_of fs ''type'') then map_of fs ''type''
          else if ToBoolean (js_chain (map_of fs ''message'') ''type'')
               then js_chain (map_of fs ''message'') ''type''
          else if ToBoolean (js_chain (map_of fs ''message'') ''role'')
               then js_chain (map_of fs ''message'') ''role''
          else Some (JStr ''unknown''))"
  by (simp add: extract_msgType_def bind_err_def js_or_def)

lemma extract_msgType_not_null:
  "v \<noteq> JNull \<Longrightarrow> \<exists>t. extract_msgType v = Inr (Some t)"
  by (cases v) (auto simp: extract_msgType_def bind_err_def js_or_def dest: ToBoolean_Some)

lemma extract_msgType_null: "extract_msgType JNull = Inl TypeError"
  by (simp add: extract_msgType_def bind_err_def)

lemma extract_content_fallthrough:
  "v \<noteq> JNull \<Longrightarrow> no_content_fields v \<Longrightarrow> extract_content B v = Inr []"
  by (cases v)
     (auto simp: extract_content_def no_content_fields_def bind_err_def
           split: option.splits json.splits)

lemma parse_line_parsed:
  "\<not> is_blank raw \<Longrightarrow> JSON_parse B raw = Some v \<Longrightarrow>
   extract_msgType v = Inr t \<Longrightarrow> extract_content B v = Inr c \<Longrightarrow>
   parse_line B raw i =
     \<lparr>index = i, line = raw, type = t, content = Some c, selected = True,
      isMessage = (t \<in> set [Some (JStr ''user''), Some (JStr ''assistant''),
                             Some (JStr ''message''), Some (JStr ''system'')])\<rparr>"
  by (simp add: parse_line_def try_block_def bind_err_def)

lemma parse_line_thrown:
  "\<not> is_blank raw \<Longrightarrow> JSON_parse B raw = Some v \<Longrightarrow>
   extract_msgType v = Inl e \<or> extract_content B v = Inl e \<Longrightarrow>
   parse_line B raw i =
     \<lparr>index = i, line = raw, type = None, content = None, selected = True, isMessage = False\<rparr>"
  by (auto simp: parse_line_def try_block_def bind_err_def split: sum.splits)

lemma example_parse:
  \<open>JSON_parse (table_builtins example_table) ''{"type":"user"}''
     = Some (JObj [(''type'', JStr ''user'')])\<close>
  \<open>JSON_parse (table_builtins example_table) ''{"type":"","message":{"role":"user"}}''
     = Some (JObj [(''type'', JStr []), (''message'', JObj [(''role'', JStr ''user'')])])\<close>
  \<open>JSON_parse (table_builtins example_table)
       ''{"message":{"role":"assistant","content":[{"type":"text","text":"hello"}]}}''
     = Some (JObj [(''message'', JObj [(''role'', JStr ''assistant''),
           (''content'', JArr [JObj [(''type'', JStr ''text''), (''text'', JStr ''hello'')]])])])\<close>
  \<open>JSON_parse (table_builtins example_table) ''{"type":"user","message":{"content":[null]}}''
     = Some (JObj [(''type'', JStr ''user''), (''message'', JObj [(''content'', JArr [JNull])])])\<close>
  \<open>JSON_parse (table_builtins example_table) ''null'' = Some JNull\<close>
  by (simp_all add: table_builtins_def example_table_def)

lemma not_blank_brace: "\<not> is_blank (CHR ''{'' # cs)"
  by (simp add: is_blank_def js_trim_def isWhiteSpace_def)

lemma not_blank_null: "\<not> is_blank ''null''"
  by (simp add: is_blank_def js_trim_def isWhiteSpace_def)

text \<open>
  C4, as amended. A line that is not blank and parses as a JSON value other than \<open>null\<close>,
  with none of the content fields the code recognises, gets the empty string as its
  content: present, not absent. (A line that parses as \<open>null\<close> gets no content.)
\<close>

theorem empty_content_when_no_field:
  assumes "\<not> is_blank raw" and "JSON_parse B raw = Some v" and "no_content_fields v"
  shows "content (parse_line B raw i) = (if v = JNull then None else Some [])"
proof (cases "v = JNull")
  case True
  with assms parse_line_thrown [of raw B v TypeError i] show ?thesis
    by (simp add: extract_msgType_null)
next
  case False
  then obtain t where "extract_msgType v = Inr (Some t)"
    using extract_msgType_not_null by blast
  with assms False show ?thesis
    by (simp add: parse_line_parsed extract_content_fallthrough)
qed

theorem empty_content_when_no_field_witness:
  \<open>\<not> is_blank ''{"type":"user"}''
   \<and> JSON_parse (table_builtins example_table) ''{"type":"user"}''
       = Some (JObj [(''type'', JStr ''user'')])
   \<and> no_content_fields (JObj [(''type'', JStr ''user'')])
   \<and> content (parse_line (table_builtins example_table) ''{"type":"user"}'' 0) = Some []\<close>
proof -
  have a: \<open>\<not> is_blank ''{"type":"user"}''\<close> by (rule not_blank_brace)
  have b: \<open>JSON_parse (table_builtins example_table) ''{"type":"user"}''
       = Some (JObj [(''type'', JStr ''user'')])\<close> by (rule example_parse)
  have c: "no_content_fields (JObj [(''type'', JStr ''user'')])"
    by (simp add: no_content_fields_def)
  from a b c empty_content_when_no_field [OF a b c, of 0] show ?thesis by simp
qed

text \<open>
  C4, as stated, fails: the line \<^verbatim>\<open>{"type":"user"}\<close> is not blank, parses as JSON
  and has no content field, and its content is present (the empty string).
\<close>

theorem absent_content_counterexample:
  \<open>\<not> is_blank ''{"type":"user"}''
   \<and> JSON_parse (table_builtins example_table) ''{"type":"user"}''
       = Some (JObj [(''type'', JStr ''user'')])
   \<and> no_content_fields (JObj [(''type'', JStr ''user'')])
   \<and> content (parse_line (table_builtins example_table) ''{"type":"user"}'' 0) \<noteq> None\<close>
proof -
  have a: \<open>\<not> is_blank ''{"type":"user"}''\<close> by (rule not_blank_brace)
  have b: \<open>JSON_parse (table_builtins example_table) ''{"type":"user"}''
       = Some (JObj [(''type'', JStr ''user'')])\<close> by (rule example_parse)
  have c: "no_content_fields (JObj [(''type'', JStr ''user'')])"
    by (simp add: no_content_fields_def)
  have "extract_msgType (JObj [(''type'', JStr ''user'')]) = Inr (Some (JStr ''user''))"
    by (simp add: extract_msgType_obj)
  moreover have "extract_content (table_builtins example_table) (JObj [(''type'', JStr ''user'')]) = Inr []"
    using c by (simp add: extract_content_fallthrough)
  ultimately have \<open>content (parse_line (table_builtins example_table) ''{"type":"user"}'' 0) = Some []\<close>
    using a b by (simp add: parse_line_parsed)
  with a b c show ?thesis by simp
qed

text \<open>
  C5, as amended. For a line that parses as a JSON object and whose content extraction
  does not throw, the type is the first truthy value among the top-level \<open>type\<close>
  field, the \<open>type\<close> field of the nested message and its \<open>role\<close> field, and
  \<open>unknown\<close> when none is truthy. When each of the three fields is absent or truthy,
  this is the first present field.
\<close>

theorem first_truthy_recordKind:
  assumes "\<not> is_blank raw" and "JSON_parse B raw = Some (JObj fs)"
    and "extract_content B (JObj fs) = Inr c"
  shows "type (parse_line B raw i) =
           (if ToBoolean (map_of fs ''type'') then map_of fs ''type''
            else if ToBoolean (js_chain (map_of fs ''message'') ''type'')
                 then js_chain (map_of fs ''message'') ''type''
            else if ToBoolean (js_chain (map_of fs ''message'') ''role'')
                 then js_chain (map_of fs ''message'') ''role''
            else Some (JStr ''unknown''))
       \<and> ((map_of fs ''type'' = None \<or> ToBoolean (map_of fs ''type''))
            \<and> (js_chain (map_of fs ''message'') ''type'' = None
                  \<or> ToBoolean (js_chain (map_of fs ''message'') ''type''))
            \<and> (js_chain (map_of fs ''message'') ''role'' = None
                  \<or> ToBoolean (js_chain (map_of fs ''message'') ''role''))
            \<longrightarrow> type (parse_line B raw i) = Some (spec_recordKind (JObj fs)))"
proof -
  have t: "type (parse_line B raw i) =
           (if ToBoolean (map_of fs ''type'') then map_of fs ''type''
            else if ToBoolean (js_chain (map_of fs ''message'') ''type'')
                 then js_chain (map_of fs ''message'') ''type''
            else if ToBoolean (js_chain (map_of fs ''message'') ''role'')
                 then js_chain (map_of fs ''message'') ''role''
            else Some (JStr ''unknown''))"
    using assms parse_line_parsed [OF assms(1) assms(2) extract_msgType_obj assms(3), of i]
    by simp
  have "type (parse_line B raw i) = Some (spec_recordKind (JObj fs))"
    if "map_of fs ''type'' = None \<or> ToBoolean (map_of fs ''type'')"
      and "js_chain (map_of fs ''message'') ''type'' = None
                  \<or> ToBoolean (js_chain (map_of fs ''message'') ''type'')"
      and "js_chain (map_of fs ''message'') ''role'' = None
                  \<or> ToBoolean (js_chain (map_of fs ''message'') ''role'')"
    using that unfolding t spec_recordKind_def
    by (auto dest: ToBoolean_Some split: option.splits)
  with t show ?thesis by blast
qed

lemma example_assistant_content:
  "extract_content (table_builtins example_table)
     (JObj [(''message'', JObj [(''role'', JStr ''assistant''),
           (''content'', JArr [JObj [(''type'', JStr ''text''), (''text'', JStr ''hello'')]])])])
   = Inr ''hello''"
  by (simp add: extract_content_def bind_err_def is_text_item_def js_join_def)

theorem first_truthy_recordKind_witness:
  \<open>\<not> is_blank ''{"message":{"role":"assistant","content":[{"type":"text","text":"hello"}]}}''
   \<and> JSON_parse (table_builtins example_table)
       ''{"message":{"role":"assistant","content":[{"type":"text","text":"hello"}]}}''
     = Some (JObj [(''message'', JObj [(''role'', JStr ''assistant''),
           (''content'', JArr [JObj [(''type'', JStr ''text''), (''text'', JStr ''hello'')]])])])
   \<and> type (parse_line (table_builtins example_table)
       ''{"message":{"role":"assistant","content":[{"type":"text","text":"hello"}]}}'' 3)
     = Some (JStr ''assistant'')
   \<and> spec_recordKind (JObj [(''message'', JObj [(''role'', JStr ''assistant''),
           (''content'', JArr [JObj [(''type'', JStr ''text''), (''text'', JStr ''hello'')]])])])
     = JStr ''assistant''\<close>
proof -
  have a: \<open>\<not> is_blank ''{"message":{"role":"assistant","content":[{"type":"text","text":"hello"}]}}''\<close>
    by (rule not_blank_brace)
  have b: \<open>JSON_parse (table_builtins example_table)
       ''{"message":{"role":"assistant","content":[{"type":"text","text":"hello"}]}}''
     = Some (JObj [(''message'', JObj [(''role'', JStr ''assistant''),
           (''content'', JArr [JObj [(''type'', JStr ''text''), (''text'', JStr ''hello'')]])])])\<close>
    by (rule example_parse)
  have s: "spec_recordKind (JObj [(''message'', JObj [(''role'', JStr ''assistant''),
           (''content'', JArr [JObj [(''type'', JStr ''text''), (''text'', JStr ''hello'')]])])])
     = JStr ''assistant''"
    by (simp add: spec_recordKind_def)
  from a b s first_truthy_recordKind [OF a b example_assistant_content, of 3]
  show ?thesis by simp
qed

text \<open>
  C5, as stated, fails: in \<^verbatim>\<open>{"type":"","message":{"role":"user"}}\<close> the top-level
  \<open>type\<close> field is present, with the empty string as its value, and the type of the
  line is \<open>user\<close>, the role of the nested message.
\<close>

theorem empty_type_counterexample:
  \<open>\<not> is_blank ''{"type":"","message":{"role":"user"}}''
   \<and> JSON_parse (table_builtins example_table) ''{"type":"","message":{"role":"user"}}''
     = Some (JObj [(''type'', JStr []), (''message'', JObj [(''role'', JStr ''user'')])])
   \<and> spec_recordKind (JObj [(''type'', JStr []), (''message'', JObj [(''role'', JStr ''user'')])])
     = JStr []
   \<and> type (parse_line (table_builtins example_table)
        ''{"type":"","message":{"role":"user"}}'' 0) = Some (JStr ''user'')\<close>
proof -
  have a: \<open>\<not> is_blank ''{"type":"","message":{"role":"user"}}''\<close>
    by (rule not_blank_brace)
  have b: \<open>JSON_parse (table_builtins example_table) ''{"type":"","message":{"role":"user"}}''
     = Some (JObj [(''type'', JStr []), (''message'', JObj [(''role'', JStr ''user'')])])\<close>
    by (rule example_parse)
  have s: "spec_recordKind (JObj [(''type'', JStr []), (''message'', JObj [(''role'', JStr ''user'')])])
     = JStr []"
    by (simp add: spec_recordKind_def)
  have c: "extract_content (table_builtins example_table)
      (JObj [(''type'', JStr []), (''message'', JObj [(''role'', JStr ''user'')])]) = Inr []"
    by (simp add: extract_content_def bind_err_def)
  have t: "extract_msgType (JObj [(''type'', JStr []), (''message'', JObj [(''role'', JStr ''user'')])])
      = Inr (Some (JStr ''user''))"
    by (simp add: extract_msgType_obj)
  from a b s parse_line_parsed [OF a b t c, of 0] show ?thesis by simp
qed

lemma type_assigned_unless_thrown:
  assumes "\<not> is_blank raw" and "JSON_parse B raw = Some v" and "v \<noteq> JNull"
    and "extract_content B v = Inr c"
  shows "\<exists>t. type (parse_line B raw i) = Some t"
proof -
  obtain t where "extract_msgType v = Inr (Some t)"
    using assms(3) extract_msgType_not_null by blast
  with assms show ?thesis by (simp add: parse_line_parsed)
qed

text \<open>
  C6. The line \<open>null\<close> is not blank and parses as JSON, but reading its \<open>type\<close>
  property throws, the exception is swallowed, and the line is left without a type; so is a
  line whose message content is an array with a \<open>null\<close> element.
\<close>

theorem null_line_gets_no_type:
  \<open>\<not> is_blank ''null''
   \<and> JSON_parse (table_builtins example_table) ''null'' = Some JNull
   \<and> parse_line (table_builtins example_table) ''null'' 0
     = \<lparr>index = 0, line = ''null'', type = None, content = None, selected = True,
        isMessage = False\<rparr>
   \<and> JSON_parse (table_builtins example_table) ''{"type":"user","message":{"content":[null]}}''
     = Some (JObj [(''type'', JStr ''user''), (''message'', JObj [(''content'', JArr [JNull])])])
   \<and> type (parse_line (table_builtins example_table)
        ''{"type":"user","message":{"content":[null]}}'' 0) = None\<close>
proof -
  have a: "\<not> is_blank ''null''" by (rule not_blank_null)
  have b: "JSON_parse (table_builtins example_table) ''null'' = Some JNull"
    by (rule example_parse)
  have a2: \<open>\<not> is_blank ''{"type":"user","message":{"content":[null]}}''\<close>
    by (rule not_blank_brace)
  have b2: \<open>JSON_parse (table_builtins example_table) ''{"type":"user","message":{"content":[null]}}''
     = Some (JObj [(''type'', JStr ''user''), (''message'', JObj [(''content'', JArr [JNull])])])\<close>
    by (rule example_parse)
  have c2: "extract_content (table_builtins example_table)
      (JObj [(''type'', JStr ''user''), (''message'', JObj [(''content'', JArr [JNull])])])
      = Inl TypeError"
    by (simp add: extract_content_def bind_err_def is_text_item_def)
  from a b a2 b2 parse_line_thrown [OF a b disjI1 [OF extract_msgType_null], of 0]
    parse_line_thrown [OF a2 b2 disjI2 [OF c2], of 0]
  show ?thesis by simp
qed

end
